theory Spec2Isabelle
  imports Main
begin

section \<open>Python and Cython values\<close>

text \<open>
  The wrapper is Cython: Python objects are converted to C integers where they are
  assigned to a C attribute or passed to a C parameter. The conversion to an unsigned
  type (\<open>size_t\<close>, \<open>mp_limb_t\<close>; 64 bits on the platforms the library builds on) raises
  \<open>OverflowError\<close> on a negative or too large Python integer. \<open>MemoryError\<close> is raised by
  the \<open>__cinit__\<close> methods of the alternative wrapper, \<open>TypeError\<close> by \<open>reduce\<close> on an empty
  list.
\<close>

datatype py_error = OverflowError | MemoryError | TypeError

definition as_size_t :: "int \<Rightarrow> py_error + nat" where
  "as_size_t v = (if v < 0 \<or> 2 ^ 64 \<le> v then Inl OverflowError else Inr (nat v))"

definition as_mp_limb_t :: "int \<Rightarrow> py_error + nat" where
  "as_mp_limb_t v = (if v < 0 \<or> 2 ^ 64 \<le> v then Inl OverflowError else Inr (nat v))"

text \<open>
  The plaintext argument of the element constructor is any Python object; the
  constructor only takes its \<open>__repr__()\<close>. The objects that occur: a Python 2 \<open>int\<close>
  (the default \<open>x=0\<close>), a Python 2 \<open>long\<close>, whose representation ends in \<open>L\<close>, and an
  element of \<open>Integers(p)\<close> as the test script passes it, printed as its representative.
\<close>

datatype py_value = PyInt int | PyLong int | IntegerMod int

definition digit_char :: "nat \<Rightarrow> char" where
  "digit_char d = ''0123456789'' ! d"

fun digits_of :: "nat \<Rightarrow> string" where
  "digits_of n =
     (if n < 10 then [digit_char n] else digits_of (n div 10) @ [digit_char (n mod 10)])"

declare digits_of.simps [simp del]

definition repr_int :: "int \<Rightarrow> string" where
  "repr_int n = (if n < 0 then CHR ''-'' # digits_of (nat (- n)) else digits_of (nat n))"

fun py_repr :: "py_value \<Rightarrow> string" where
  "py_repr (PyInt n) = repr_int n"
| "py_repr (PyLong n) = repr_int n @ ''L''"
| "py_repr (IntegerMod n) = repr_int n"

text \<open>
  \<open>fmpz_set_str(f, str, 10)\<close> as FLINT and GMP document it: white space in the string is
  ignored; when what remains is an optional minus sign and at least one decimal digit,
  \<open>f\<close> is set to that number and 0 is returned; otherwise \<open>f\<close> is left as it was and -1
  is returned. The function returns the pair of the new content of \<open>f\<close> and the status.
\<close>

definition is_space :: "char \<Rightarrow> bool" where
  "is_space c = (of_char c = (32::nat) \<or> (9 \<le> (of_char c :: nat) \<and> (of_char c :: nat) \<le> 13))"

definition is_digit :: "char \<Rightarrow> bool" where
  "is_digit c = (48 \<le> (of_char c :: nat) \<and> (of_char c :: nat) \<le> 57)"

definition digit_val :: "char \<Rightarrow> nat" where
  "digit_val c = of_char c - 48"

definition digits_val :: "string \<Rightarrow> nat" where
  "digits_val ds = foldl (\<lambda>acc c. 10 * acc + digit_val c) 0 ds"

definition mpz_set_str :: "string \<Rightarrow> int option" where
  "mpz_set_str str =
     (let s = filter (\<lambda>c. \<not> is_space c) str
      in case s of
           [] \<Rightarrow> None
         | c # ds \<Rightarrow>
             if c = CHR ''-''
             then (if ds \<noteq> [] \<and> list_all is_digit ds then Some (- int (digits_val ds))
                   else None)
             else (if list_all is_digit s then Some (int (digits_val s)) else None))"

definition fmpz_set_str :: "int \<Rightarrow> string \<Rightarrow> int \<times> int" where
  "fmpz_set_str f str = (case mpz_set_str str of Some v \<Rightarrow> (v, 0) | None \<Rightarrow> (f, - 1))"

text \<open>
  A FLINT integer polynomial is its list of coefficients, lowest degree first, with no
  trailing zero. \<open>fmpz_poly_init\<close> gives the zero polynomial;
  \<open>fmpz_poly_set_coeff_fmpz poly n x\<close> sets the coefficient of degree \<open>n\<close>.
\<close>

type_synonym fmpz_poly_t = "int list"

definition fmpz_poly_init :: fmpz_poly_t where
  "fmpz_poly_init = []"

definition fmpz_poly_normalise :: "fmpz_poly_t \<Rightarrow> fmpz_poly_t" where
  "fmpz_poly_normalise poly = rev (dropWhile (\<lambda>c. c = 0) (rev poly))"

definition fmpz_poly_set_coeff_fmpz :: "fmpz_poly_t \<Rightarrow> nat \<Rightarrow> int \<Rightarrow> fmpz_poly_t" where
  "fmpz_poly_set_coeff_fmpz poly n x =
     fmpz_poly_normalise ((poly @ replicate (Suc n - length poly) 0)[n := x])"

section \<open>The native library, as the wrapper sees it\<close>

text \<open>
  The \<open>.pxd\<close> files declare the functions of the native GGHLite library; their bodies
  are not part of the repository. The wrapper is verified for every library: the library is
  a record of functions over four opaque types, the secret instance \<open>'sk\<close>, the public
  parameters \<open>'params\<close>, an encoding \<open>'enc\<close> and the FLINT randomness state \<open>'rand\<close>.
  A C function that writes through an output parameter returns the value written; one
  that advances the randomness state returns the new state as well.
\<close>

datatype gghlite_flag_t =
    GGHLITE_FLAGS_DEFAULT
  | GGHLITE_FLAGS_PRIME_G
  | GGHLITE_FLAGS_VERBOSE
  | GGHLITE_FLAGS_GDDH_HARD
  | GGHLITE_FLAGS_ASYMMETRIC
  | GGHLITE_FLAGS_QUIET
  | GGHLITE_FLAGS_GOOD_G_INV

record ('sk, 'params, 'enc, 'rand) gghlite =
  flint_randinit_seed :: "nat \<Rightarrow> int \<Rightarrow> 'rand"
  gghlite_init :: "nat \<Rightarrow> nat \<Rightarrow> nat \<Rightarrow> gghlite_flag_t set \<Rightarrow> 'rand \<Rightarrow> 'sk \<times> 'rand"
  gghlite_sk_get_p :: "'sk \<Rightarrow> int"
  gghlite_params_ref :: "'sk \<Rightarrow> 'params"
  gghlite_enc_init :: "'params \<Rightarrow> 'enc"
  gghlite_enc_set_gghlite_clr ::
    "'sk \<Rightarrow> fmpz_poly_t \<Rightarrow> nat \<Rightarrow> nat \<Rightarrow> int \<Rightarrow> 'rand \<Rightarrow> 'enc \<times> 'rand"
  gghlite_enc_mul :: "'params \<Rightarrow> 'enc \<Rightarrow> 'enc \<Rightarrow> 'enc"
  gghlite_enc_add :: "'params \<Rightarrow> 'enc \<Rightarrow> 'enc \<Rightarrow> 'enc"
  gghlite_enc_sub :: "'params \<Rightarrow> 'enc \<Rightarrow> 'enc \<Rightarrow> 'enc"
  gghlite_enc_is_zero :: "'params \<Rightarrow> 'enc \<Rightarrow> bool"

text \<open>
  Every call into the native library is recorded, in order, with its scalar arguments.
  The first group are the functions of the interface that \<open>wrapper.pyx\<close> uses (an
  instance \<open>gghlite_sk_t\<close>, parameters \<open>gghlite_params_t\<close>), the second group those of the
  interface that the alternative wrapper uses (\<open>gghlite_t\<close>, \<open>gghlite_pk_t\<close>).
\<close>

datatype native_call =
    Call_flint_randinit_seed nat int
  | Call_gghlite_init nat nat nat
  | Call_gghlite_params_ref
  | Call_gghlite_sk_get_p
  | Call_gghlite_sk_clear int
  | Call_gghlite_enc_init
  | Call_gghlite_enc_set_gghlite_clr fmpz_poly_t nat nat int
  | Call_gghlite_enc_mul
  | Call_gghlite_enc_add
  | Call_gghlite_enc_sub
  | Call_gghlite_enc_is_zero
  | Call_gghlite_pk_ref
  | Call_gghlite_clear int
  | Call_gghlite_sample int
  | Call_gghlite_mul
  | Call_gghlite_add
  | Call_gghlite_is_zero

section \<open>Objects\<close>

text \<open>
  Parents are Python objects that are mutated in place (the randomness state advances)
  and shared by reference between all their elements: the store maps a reference to the
  parent object it denotes. Elements are never mutated after construction.
\<close>

record 'prnt world =
  parents :: "nat \<Rightarrow> 'prnt"
  next_ref :: nat
  trace :: "native_call list"

record ('b, 'sk, 'params, 'rand) Encoded_Parent =
  ep_base :: 'b
  ep_kappa :: nat
  ep_lamb :: nat
  ep_p :: int
  ep_params :: 'params
  ep_randstate :: 'rand
  ep_instance :: 'sk

record 'enc Encoded_Element =
  ee_parent :: nat
  ee_value :: 'enc

type_synonym ('b, 'sk, 'params, 'rand) pworld = "('b, 'sk, 'params, 'rand) Encoded_Parent world"

section \<open>wrapper.pyx: Encoded\_Parent\<close>

text \<open>
  \<open>Encoded_Parent.__init__(self, base, kappa, lamb=20, mp_limb_t seed=0, category=None)\<close>.
  The typed argument \<open>seed\<close> is converted when the arguments are unpacked, \<open>kappa\<close> and
  \<open>lamb\<close> when they are assigned to the \<open>size_t\<close> attributes. The call of
  \<open>gghlite_sk_clear\<close> is commented out in the source, and the instance is an attribute of
  the parent. The \<open>print\<close> statements and \<open>sig_on\<close>/\<open>sig_off\<close> are left out.
\<close>

definition Encoded_Parent_flags :: "gghlite_flag_t set" where
  "Encoded_Parent_flags =
     {GGHLITE_FLAGS_GDDH_HARD, GGHLITE_FLAGS_VERBOSE, GGHLITE_FLAGS_GOOD_G_INV,
      GGHLITE_FLAGS_ASYMMETRIC}"

definition Encoded_Parent_init ::
  "('sk, 'params, 'enc, 'rand) gghlite \<Rightarrow> 'b \<Rightarrow> int \<Rightarrow> int \<Rightarrow> int \<Rightarrow>
   ('b, 'sk, 'params, 'rand) pworld \<Rightarrow> (py_error + nat) \<times> ('b, 'sk, 'params, 'rand) pworld" where
  "Encoded_Parent_init lib base kappa lamb seed w =
     (case as_mp_limb_t seed of Inl e \<Rightarrow> (Inl e, w) | Inr seed' \<Rightarrow>
      case as_size_t kappa of Inl e \<Rightarrow> (Inl e, w) | Inr kappa' \<Rightarrow>
      case as_size_t lamb of Inl e \<Rightarrow> (Inl e, w) | Inr lamb' \<Rightarrow>
      let rs0 = flint_randinit_seed lib seed' 1;
          flags = Encoded_Parent_flags;
          inst = gghlite_init lib lamb' kappa' 1 flags rs0;
          self = \<lparr>ep_base = base, ep_kappa = kappa', ep_lamb = lamb',
                  ep_p = gghlite_sk_get_p lib (fst inst),
                  ep_params = gghlite_params_ref lib (fst inst),
                  ep_randstate = snd inst, ep_instance = fst inst\<rparr>;
          r = next_ref w
      in (Inr r,
          w\<lparr>parents := (parents w)(r := self), next_ref := Suc r,
            trace := trace w @ [Call_flint_randinit_seed seed' 1,
                                Call_gghlite_init lamb' kappa' 1,
                                Call_gghlite_params_ref, Call_gghlite_sk_get_p]\<rparr>))"

definition getP :: "('b, 'sk, 'params, 'rand) pworld \<Rightarrow> nat \<Rightarrow> int" where
  "getP w self = ep_p (parents w self)"

section \<open>wrapper.pyx: Encoded\_Element\<close>

text \<open>
  \<open>Encoded_Element.__init__(self, parent, x=0, level=0)\<close>. The local \<open>tmp_fmpz\<close> is
  declared and never initialised: the constructor starts with whatever the memory of
  that local holds, which is the argument \<open>tmp_fmpz\<close> here. \<open>fmpz_set_str\<close> parses
  \<open>x.__repr__()\<close> into it and its status is not looked at, so after a failed parse the
  old content stays. That integer becomes the constant coefficient of the polynomial
  handed to the native encoder, which is called with \<open>k = 1\<close>, group index \<open>level\<close> and
  \<open>rerand = 0\<close>; \<open>level\<close> is converted to \<open>size_t\<close> at that call, after
  \<open>gghlite_enc_init\<close> has run. No comparison of \<open>level\<close> with \<open>kappa\<close> is made (the source
  has the comment \<open>#later assert that level is smaller than kappa!\<close> in its place).
\<close>

definition Encoded_Element_init ::
  "('sk, 'params, 'enc, 'rand) gghlite \<Rightarrow> nat \<Rightarrow> py_value \<Rightarrow> int \<Rightarrow> int \<Rightarrow>
   ('b, 'sk, 'params, 'rand) pworld \<Rightarrow>
   (py_error + 'enc Encoded_Element) \<times> ('b, 'sk, 'params, 'rand) pworld" where
  "Encoded_Element_init lib parent x level tmp_fmpz w =
     (let prnt = parents w parent;
          w1 = w\<lparr>trace := trace w @ [Call_gghlite_enc_init]\<rparr>;
          rerand = 0;
          tmp_fmpz1 = fst (fmpz_set_str tmp_fmpz (py_repr x));
          tmp_fmpz_poly = fmpz_poly_set_coeff_fmpz fmpz_poly_init 0 tmp_fmpz1
      in case as_size_t level of Inl e \<Rightarrow> (Inl e, w1) | Inr level' \<Rightarrow>
         let res = gghlite_enc_set_gghlite_clr lib (ep_instance prnt) tmp_fmpz_poly 1 level'
                     rerand (ep_randstate prnt)
         in (Inr \<lparr>ee_parent = parent, ee_value = fst res\<rparr>,
             w1\<lparr>parents := (parents w1)(parent := prnt\<lparr>ep_randstate := snd res\<rparr>),
                trace := trace w1 @ [Call_gghlite_enc_set_gghlite_clr tmp_fmpz_poly 1 level'
                                       rerand]\<rparr>))"

text \<open>\<open>_new_c\<close>: a fresh element of the same parent, its value initialised by the library.\<close>

definition Encoded_Element_new_c ::
  "('sk, 'params, 'enc, 'rand) gghlite \<Rightarrow> 'enc Encoded_Element \<Rightarrow>
   ('b, 'sk, 'params, 'rand) pworld \<Rightarrow> 'enc Encoded_Element \<times> ('b, 'sk, 'params, 'rand) pworld" where
  "Encoded_Element_new_c lib self w =
     (\<lparr>ee_parent = ee_parent self,
       ee_value = gghlite_enc_init lib (ep_params (parents w (ee_parent self)))\<rparr>,
      w\<lparr>trace := trace w @ [Call_gghlite_enc_init]\<rparr>)"

text \<open>
  \<open>_add_\<close>, \<open>_mul_\<close>, \<open>_sub_\<close>: the fresh element's value is overwritten by the native
  operation on the two operands' values, under the parameters of the parent of \<open>self\<close>.
  Neither the parent of \<open>right\<close> nor any level is looked at, and nothing is raised.
\<close>

definition Encoded_Element_add ::
  "('sk, 'params, 'enc, 'rand) gghlite \<Rightarrow> 'enc Encoded_Element \<Rightarrow> 'enc Encoded_Element \<Rightarrow>
   ('b, 'sk, 'params, 'rand) pworld \<Rightarrow> 'enc Encoded_Element \<times> ('b, 'sk, 'params, 'rand) pworld" where
  "Encoded_Element_add lib self right w =
     (let (ret, w1) = Encoded_Element_new_c lib self w
      in (ret\<lparr>ee_value := gghlite_enc_add lib (ep_params (parents w1 (ee_parent self)))
                             (ee_value self) (ee_value right)\<rparr>,
          w1\<lparr>trace := trace w1 @ [Call_gghlite_enc_add]\<rparr>))"

definition Encoded_Element_mul ::
  "('sk, 'params, 'enc, 'rand) gghlite \<Rightarrow> 'enc Encoded_Element \<Rightarrow> 'enc Encoded_Element \<Rightarrow>
   ('b, 'sk, 'params, 'rand) pworld \<Rightarrow> 'enc Encoded_Element \<times> ('b, 'sk, 'params, 'rand) pworld" where
  "Encoded_Element_mul lib self right w =
     (let (ret, w1) = Encoded_Element_new_c lib self w
      in (ret\<lparr>ee_value := gghlite_enc_mul lib (ep_params (parents w1 (ee_parent self)))
                             (ee_value self) (ee_value right)\<rparr>,
          w1\<lparr>trace := trace w1 @ [Call_gghlite_enc_mul]\<rparr>))"

definition Encoded_Element_sub ::
  "('sk, 'params, 'enc, 'rand) gghlite \<Rightarrow> 'enc Encoded_Element \<Rightarrow> 'enc Encoded_Element \<Rightarrow>
   ('b, 'sk, 'params, 'rand) pworld \<Rightarrow> 'enc Encoded_Element \<times> ('b, 'sk, 'params, 'rand) pworld" where
  "Encoded_Element_sub lib self right w =
     (let (ret, w1) = Encoded_Element_new_c lib self w
      in (ret\<lparr>ee_value := gghlite_enc_sub lib (ep_params (parents w1 (ee_parent self)))
                             (ee_value self) (ee_value right)\<rparr>,
          w1\<lparr>trace := trace w1 @ [Call_gghlite_enc_sub]\<rparr>))"

text \<open>\<open>__nonzero__\<close>: the truth value of an element, \<open>not gghlite_enc_is_zero(...)\<close>.\<close>

definition Encoded_Element_nonzero ::
  "('sk, 'params, 'enc, 'rand) gghlite \<Rightarrow> 'enc Encoded_Element \<Rightarrow>
   ('b, 'sk, 'params, 'rand) pworld \<Rightarrow> bool \<times> ('b, 'sk, 'params, 'rand) pworld" where
  "Encoded_Element_nonzero lib self w =
     (\<not> gghlite_enc_is_zero lib (ep_params (parents w (ee_parent self))) (ee_value self),
      w\<lparr>trace := trace w @ [Call_gghlite_enc_is_zero]\<rparr>)"

section \<open>The alternative wrapper (public-key interface)\<close>

text \<open>
  The second wrapper of the repository is written against the library's public-key
  interface (the \<open>gghlite.pxd\<close> beside \<open>wrapper.pyx\<close>): an instance \<open>gghlite_t\<close>, a public key
  \<open>gghlite_pk_t\<close>, and \<open>gghlite_sample\<close> in place of an encoder. Its objects hold pointers
  to blocks obtained from \<open>PyMem_Malloc\<close>; the world counts the blocks the allocator can
  still hand out, and an allocation with none left returns \<open>NULL\<close>.
\<close>

record ('sk, 'pk, 'enc, 'rand) gghlite_alt =
  flint_randinit_seed_alt :: "nat \<Rightarrow> int \<Rightarrow> 'rand"
  gghlite_init_alt :: "nat \<Rightarrow> nat \<Rightarrow> nat \<Rightarrow> nat \<Rightarrow> 'rand \<Rightarrow> 'sk \<times> 'rand"
  gghlite_pk_ref :: "'sk \<Rightarrow> 'pk"
  gghlite_enc_init_alt :: "'pk \<Rightarrow> 'enc"
  gghlite_sample :: "'pk \<Rightarrow> int \<Rightarrow> 'rand \<Rightarrow> 'enc \<times> 'rand"
  gghlite_mul :: "'pk \<Rightarrow> 'enc \<Rightarrow> 'enc \<Rightarrow> 'enc"
  gghlite_add :: "'pk \<Rightarrow> 'enc \<Rightarrow> 'enc \<Rightarrow> 'enc"
  gghlite_is_zero :: "'pk \<Rightarrow> 'enc \<Rightarrow> bool"

record ('b, 'pk, 'rand) Encoded_Parent_alt =
  ap_base :: 'b
  ap_kappa :: nat
  ap_lamb :: nat
  ap_publickey :: 'pk
  ap_randstate :: 'rand

record 'prnt world_alt = "'prnt world" +
  free_blocks :: nat

type_synonym ('b, 'pk, 'rand) aworld = "('b, 'pk, 'rand) Encoded_Parent_alt world_alt"

text \<open>
  \<open>Encoded_Parent.__cinit__\<close> allocates the public key and the randomness state and raises
  \<open>MemoryError\<close> when either is \<open>NULL\<close>. \<open>__init__\<close> then converts its arguments as in
  \<open>wrapper.pyx\<close>, calls \<open>gghlite_init\<close> with \<open>flags = 0\<close> on a local instance, takes the
  public key and calls \<open>gghlite_clear(instance, 0)\<close>. When construction fails the
  half-built object is released with its blocks; the native calls of that release are
  not recorded.
\<close>

definition Encoded_Parent_init_alt ::
  "('sk, 'pk, 'enc, 'rand) gghlite_alt \<Rightarrow> 'b \<Rightarrow> int \<Rightarrow> int \<Rightarrow> int \<Rightarrow>
   ('b, 'pk, 'rand) aworld \<Rightarrow> (py_error + nat) \<times> ('b, 'pk, 'rand) aworld" where
  "Encoded_Parent_init_alt lib base kappa lamb seed w =
     (if free_blocks w < 2 then (Inl MemoryError, w) else
      case as_mp_limb_t seed of Inl e \<Rightarrow> (Inl e, w) | Inr seed' \<Rightarrow>
      case as_size_t kappa of Inl e \<Rightarrow> (Inl e, w) | Inr kappa' \<Rightarrow>
      case as_size_t lamb of Inl e \<Rightarrow> (Inl e, w) | Inr lamb' \<Rightarrow>
      let rs0 = flint_randinit_seed_alt lib seed' 1;
          flags = 0;
          inst = gghlite_init_alt lib lamb' kappa' 1 flags rs0;
          self = \<lparr>ap_base = base, ap_kappa = kappa', ap_lamb = lamb',
                  ap_publickey = gghlite_pk_ref lib (fst inst), ap_randstate = snd inst\<rparr>;
          r = next_ref w
      in (Inr r,
          w\<lparr>parents := (parents w)(r := self), next_ref := Suc r,
            trace := trace w @ [Call_flint_randinit_seed seed' 1,
                                Call_gghlite_init lamb' kappa' 1,
                                Call_gghlite_pk_ref, Call_gghlite_clear 0],
            free_blocks := free_blocks w - 2\<rparr>))"

text \<open>
  \<open>Encoded_Element(parent, x=0)\<close>: \<open>__cinit__\<close> allocates the value, \<open>__init__\<close> initialises
  it and overwrites it with \<open>gghlite_sample(value, publickey, 0, randstate)\<close>. The
  argument \<open>x\<close> is not used.
\<close>

definition Encoded_Element_init_alt ::
  "('sk, 'pk, 'enc, 'rand) gghlite_alt \<Rightarrow> nat \<Rightarrow> int \<Rightarrow> ('b, 'pk, 'rand) aworld \<Rightarrow>
   (py_error + 'enc Encoded_Element) \<times> ('b, 'pk, 'rand) aworld" where
  "Encoded_Element_init_alt lib parent x w =
     (if free_blocks w = 0 then (Inl MemoryError, w) else
      let prnt = parents w parent;
          res = gghlite_sample lib (ap_publickey prnt) 0 (ap_randstate prnt)
      in (Inr \<lparr>ee_parent = parent, ee_value = fst res\<rparr>,
          w\<lparr>parents := (parents w)(parent := prnt\<lparr>ap_randstate := snd res\<rparr>),
            trace := trace w @ [Call_gghlite_enc_init, Call_gghlite_sample 0],
            free_blocks := free_blocks w - 1\<rparr>))"

text \<open>
  \<open>_add_\<close> and \<open>_mul_\<close> build the result with the constructor above (so each of them
  draws a sample first) and overwrite its value with the native sum or product.
\<close>

definition Encoded_Element_add_alt ::
  "('sk, 'pk, 'enc, 'rand) gghlite_alt \<Rightarrow> 'enc Encoded_Element \<Rightarrow> 'enc Encoded_Element \<Rightarrow>
   ('b, 'pk, 'rand) aworld \<Rightarrow> (py_error + 'enc Encoded_Element) \<times> ('b, 'pk, 'rand) aworld" where
  "Encoded_Element_add_alt lib self right w =
     (case Encoded_Element_init_alt lib (ee_parent self) 0 w of
        (Inl e, w1) \<Rightarrow> (Inl e, w1)
      | (Inr ret, w1) \<Rightarrow>
          (Inr (ret\<lparr>ee_value := gghlite_add lib (ap_publickey (parents w1 (ee_parent self)))
                                   (ee_value self) (ee_value right)\<rparr>),
           w1\<lparr>trace := trace w1 @ [Call_gghlite_add]\<rparr>))"

definition Encoded_Element_mul_alt ::
  "('sk, 'pk, 'enc, 'rand) gghlite_alt \<Rightarrow> 'enc Encoded_Element \<Rightarrow> 'enc Encoded_Element \<Rightarrow>
   ('b, 'pk, 'rand) aworld \<Rightarrow> (py_error + 'enc Encoded_Element) \<times> ('b, 'pk, 'rand) aworld" where
  "Encoded_Element_mul_alt lib self right w =
     (case Encoded_Element_init_alt lib (ee_parent self) 0 w of
        (Inl e, w1) \<Rightarrow> (Inl e, w1)
      | (Inr ret, w1) \<Rightarrow>
          (Inr (ret\<lparr>ee_value := gghlite_mul lib (ap_publickey (parents w1 (ee_parent self)))
                                   (ee_value self) (ee_value right)\<rparr>),
           w1\<lparr>trace := trace w1 @ [Call_gghlite_mul]\<rparr>))"

definition Encoded_Element_nonzero_alt ::
  "('sk, 'pk, 'enc, 'rand) gghlite_alt \<Rightarrow> 'enc Encoded_Element \<Rightarrow>
   ('b, 'pk, 'rand) aworld \<Rightarrow> bool \<times> ('b, 'pk, 'rand) aworld" where
  "Encoded_Element_nonzero_alt lib self w =
     (\<not> gghlite_is_zero lib (ap_publickey (parents w (ee_parent self))) (ee_value self),
      w\<lparr>trace := trace w @ [Call_gghlite_is_zero]\<rparr>)"

section \<open>test.sage\<close>

text \<open>
  The test script. The five draws of \<open>Plain.random_element()\<close> are given by \<open>draw\<close>, and
  \<open>junk n\<close> is what the \<open>n\<close>-th of the script's ten element constructions finds in its
  uninitialised local. \<open>Plain\<close> is the ring of integers modulo \<open>Enc.getP()\<close>;
  \<open>reduce(mul, ...)\<close> multiplies from the left. The result is the script's variables at
  its end, with what it prints, \<open>not bool(maybe_zero)\<close>, as \<open>ts_works\<close>.
\<close>

record 'enc test_sage_vars =
  ts_p :: int
  ts_plaintext :: "int list"
  ts_result :: int
  ts_value1 :: "'enc Encoded_Element"
  ts_value2 :: "'enc Encoded_Element"
  ts_maybe_zero :: "'enc Encoded_Element"
  ts_works :: bool

definition bind_py ::
  "(py_error + 'a) \<times> 'w \<Rightarrow> ('a \<Rightarrow> 'w \<Rightarrow> (py_error + 'b) \<times> 'w) \<Rightarrow> (py_error + 'b) \<times> 'w" where
  "bind_py m f = (case m of (Inl e, w) \<Rightarrow> (Inl e, w) | (Inr a, w) \<Rightarrow> f a w)"

fun encode_all ::
  "('sk, 'params, 'enc, 'rand) gghlite \<Rightarrow> nat \<Rightarrow> (py_value \<times> int \<times> int) list \<Rightarrow>
   ('b, 'sk, 'params, 'rand) pworld \<Rightarrow>
   (py_error + 'enc Encoded_Element list) \<times> ('b, 'sk, 'params, 'rand) pworld" where
  "encode_all lib Enc [] w = (Inr [], w)"
| "encode_all lib Enc ((x, lvl, tmp) # rest) w =
     bind_py (Encoded_Element_init lib Enc x lvl tmp w) (\<lambda>e w1.
     bind_py (encode_all lib Enc rest w1) (\<lambda>es w2. (Inr (e # es), w2)))"

fun foldl_mul ::
  "('sk, 'params, 'enc, 'rand) gghlite \<Rightarrow> 'enc Encoded_Element \<Rightarrow> 'enc Encoded_Element list \<Rightarrow>
   ('b, 'sk, 'params, 'rand) pworld \<Rightarrow> 'enc Encoded_Element \<times> ('b, 'sk, 'params, 'rand) pworld" where
  "foldl_mul lib acc [] w = (acc, w)"
| "foldl_mul lib acc (e # es) w =
     (let (acc', w1) = Encoded_Element_mul lib acc e w in foldl_mul lib acc' es w1)"

definition reduce_mul ::
  "('sk, 'params, 'enc, 'rand) gghlite \<Rightarrow> 'enc Encoded_Element list \<Rightarrow>
   ('b, 'sk, 'params, 'rand) pworld \<Rightarrow>
   (py_error + 'enc Encoded_Element) \<times> ('b, 'sk, 'params, 'rand) pworld" where
  "reduce_mul lib es w =
     (case es of [] \<Rightarrow> (Inl TypeError, w)
      | e # rest \<Rightarrow> (let (v, w1) = foldl_mul lib e rest w in (Inr v, w1)))"

definition reduce_mul_Plain :: "int \<Rightarrow> int list \<Rightarrow> py_error + int" where
  "reduce_mul_Plain p xs =
     (case xs of [] \<Rightarrow> Inl TypeError | x # rest \<Rightarrow> Inr (foldl (\<lambda>a b. a * b mod p) x rest))"

definition test_sage ::
  "('sk, 'params, 'enc, 'rand) gghlite \<Rightarrow> 'b \<Rightarrow> (nat \<Rightarrow> int) \<Rightarrow> (nat \<Rightarrow> int) \<Rightarrow>
   ('b, 'sk, 'params, 'rand) pworld \<Rightarrow>
   (py_error + 'enc test_sage_vars) \<times> ('b, 'sk, 'params, 'rand) pworld" where
  "test_sage lib QQ draw junk w =
     (let levels = 5 in
      bind_py (Encoded_Parent_init lib QQ (int levels) 20 0 w) (\<lambda>Enc w.
      let p = getP w Enc;
          plaintext = map draw [0..<levels]
      in case reduce_mul_Plain p plaintext of Inl e \<Rightarrow> (Inl e, w) | Inr result \<Rightarrow>
      bind_py (encode_all lib Enc
                 (map (\<lambda>lvl. (IntegerMod (draw lvl), int lvl, junk lvl)) [0..<levels]) w)
        (\<lambda>encoding w.
      bind_py (reduce_mul lib encoding w) (\<lambda>value1 w.
      bind_py (encode_all lib Enc
                 (map (\<lambda>lvl. (IntegerMod (1 mod p), int lvl, junk (levels + lvl - 1)))
                    [1..<levels]) w)
        (\<lambda>encoded_ones w.
      bind_py (Encoded_Element_init lib Enc (IntegerMod result) 0 (junk (2 * levels - 1)) w)
        (\<lambda>enc_result w.
      bind_py (reduce_mul lib encoded_ones w) (\<lambda>ones w.
      let (value2, w) = Encoded_Element_mul lib enc_result ones w;
          (maybe_zero, w) = Encoded_Element_sub lib value1 value2 w;
          (b, w) = Encoded_Element_nonzero lib maybe_zero w
      in (Inr \<lparr>ts_p = p, ts_plaintext = plaintext, ts_result = result, ts_value1 = value1,
               ts_value2 = value2, ts_maybe_zero = maybe_zero, ts_works = (\<not> b)\<rparr>, w))))))))"

section \<open>A reference library\<close>

text \<open>
  Modelled from the spec: the primitive encoding engine (the native GGHLite library),
  which the repository only declares. The spec describes it as a graded encoding scheme
  over the plaintext ring of integers modulo \<open>p\<close>: an encoding stands for a plaintext and
  a level tag with one slot per group; addition and multiplication act on the plaintexts
  modulo \<open>p\<close>; multiplication adds the level tags; the zero-test answers true exactly for
  a plaintext zero at the top level (every slot used once); every encoding operation
  mutates the randomness state. An encoding is identified with the plaintext and the
  level it stands for: its representation is not modelled.
\<close>

record ideal_sk =
  sk_p :: int
  sk_kappa :: nat

record ideal_params =
  pp_p :: int
  pp_kappa :: nat

record ideal_enc =
  plain :: int
  lvl :: "nat list"

definition coeff0 :: "fmpz_poly_t \<Rightarrow> int" where
  "coeff0 f = (case f of [] \<Rightarrow> 0 | c # _ \<Rightarrow> c)"

definition ideal :: "int \<Rightarrow> (ideal_sk, ideal_params, ideal_enc, nat) gghlite" where
  "ideal p =
     \<lparr>flint_randinit_seed = (\<lambda>seed gmp. seed),
      gghlite_init = (\<lambda>lamb kappa rerand_mask flags rs. (\<lparr>sk_p = p, sk_kappa = kappa\<rparr>, Suc rs)),
      gghlite_sk_get_p = sk_p,
      gghlite_params_ref = (\<lambda>sk. \<lparr>pp_p = sk_p sk, pp_kappa = sk_kappa sk\<rparr>),
      gghlite_enc_init = (\<lambda>pp. \<lparr>plain = 0, lvl = replicate (pp_kappa pp) 0\<rparr>),
      gghlite_enc_set_gghlite_clr = (\<lambda>sk f k i rerand rs.
         (\<lparr>plain = coeff0 f mod sk_p sk, lvl = (replicate (sk_kappa sk) 0)[i := k]\<rparr>, Suc rs)),
      gghlite_enc_mul = (\<lambda>pp a b.
         \<lparr>plain = plain a * plain b mod pp_p pp, lvl = map2 (+) (lvl a) (lvl b)\<rparr>),
      gghlite_enc_add = (\<lambda>pp a b.
         \<lparr>plain = (plain a + plain b) mod pp_p pp, lvl = lvl a\<rparr>),
      gghlite_enc_sub = (\<lambda>pp a b.
         \<lparr>plain = (plain a - plain b) mod pp_p pp, lvl = lvl a\<rparr>),
      gghlite_enc_is_zero = (\<lambda>pp a. lvl a = replicate (pp_kappa pp) 1 \<and> plain a = 0)\<rparr>"

text \<open>
  Modelled from the spec: the same engine behind the public-key interface, where an encoding
  has a single integer level and \<open>gghlite_sample\<close> draws the plaintext from the
  randomness state.
\<close>

record ideal_enc_alt =
  plain_alt :: int
  level_alt :: int

definition ideal_alt :: "int \<Rightarrow> (ideal_sk, ideal_params, ideal_enc_alt, nat) gghlite_alt" where
  "ideal_alt p =
     \<lparr>flint_randinit_seed_alt = (\<lambda>seed gmp. seed),
      gghlite_init_alt = (\<lambda>lamb kappa rerand_mask flags rs. (\<lparr>sk_p = p, sk_kappa = kappa\<rparr>, Suc rs)),
      gghlite_pk_ref = (\<lambda>sk. \<lparr>pp_p = sk_p sk, pp_kappa = sk_kappa sk\<rparr>),
      gghlite_enc_init_alt = (\<lambda>pk. \<lparr>plain_alt = 0, level_alt = 0\<rparr>),
      gghlite_sample = (\<lambda>pk k rs. (\<lparr>plain_alt = int rs mod pp_p pk, level_alt = k\<rparr>, Suc rs)),
      gghlite_mul = (\<lambda>pk a b.
         \<lparr>plain_alt = plain_alt a * plain_alt b mod pp_p pk,
          level_alt = level_alt a + level_alt b\<rparr>),
      gghlite_add = (\<lambda>pk a b.
         \<lparr>plain_alt = (plain_alt a + plain_alt b) mod pp_p pk, level_alt = level_alt a\<rparr>),
      gghlite_is_zero = (\<lambda>pk a. level_alt a = int (pp_kappa pk) \<and> plain_alt a = 0)\<rparr>"

text \<open>The empty worlds: no object allocated, nothing called.\<close>

definition world0 :: "(unit, ideal_sk, ideal_params, nat) pworld" where
  "world0 =
     \<lparr>parents = (\<lambda>_. \<lparr>ep_base = (), ep_kappa = 0, ep_lamb = 0, ep_p = 0,
                       ep_params = \<lparr>pp_p = 0, pp_kappa = 0\<rparr>, ep_randstate = 0,
                       ep_instance = \<lparr>sk_p = 0, sk_kappa = 0\<rparr>\<rparr>),
      next_ref = 0, trace = []\<rparr>"

definition world0_alt :: "nat \<Rightarrow> (unit, ideal_params, nat) aworld" where
  "world0_alt n =
     \<lparr>parents = (\<lambda>_. \<lparr>ap_base = (), ap_kappa = 0, ap_lamb = 0,
                       ap_publickey = \<lparr>pp_p = 0, pp_kappa = 0\<rparr>, ap_randstate = 0\<rparr>),
      next_ref = 0, trace = [], free_blocks = n\<rparr>"

definition world_kappa5 :: "(unit, ideal_sk, ideal_params, nat) pworld" where
  "world_kappa5 = snd (Encoded_Parent_init (ideal 7) () 5 20 0 world0)"

definition world_kappa1 :: "(unit, ideal_sk, ideal_params, nat) pworld" where
  "world_kappa1 = snd (Encoded_Parent_init (ideal 7) () 1 20 0 world0)"

definition world_two :: "(unit, ideal_sk, ideal_params, nat) pworld" where
  "world_two = snd (Encoded_Parent_init (ideal 7) () 5 20 0 world_kappa5)"

definition world_kappa5_alt :: "(unit, ideal_params, nat) aworld" where
  "world_kappa5_alt = snd (Encoded_Parent_init_alt (ideal_alt 7) () 5 20 0 (world0_alt 8))"

text \<open>
  The parent at reference \<open>r\<close> was made by the reference library with modulus \<open>p\<close> and
  degree \<open>k\<close>.
\<close>

definition ideal_ctx ::
  "int \<Rightarrow> nat \<Rightarrow> ('b, ideal_sk, ideal_params, nat) pworld \<Rightarrow> nat \<Rightarrow> bool" where
  "ideal_ctx p k w r =
     (ep_instance (parents w r) = \<lparr>sk_p = p, sk_kappa = k\<rparr> \<and>
      ep_params (parents w r) = \<lparr>pp_p = p, pp_kappa = k\<rparr> \<and> ep_p (parents w r) = p)"

text \<open>A Python integer that converts to \<open>size_t\<close> and \<open>mp_limb_t\<close>.\<close>

definition fits_unsigned :: "int \<Rightarrow> bool" where
  "fits_unsigned v = (0 \<le> v \<and> v < 2 ^ 64)"

section \<open>Auxiliary facts\<close>

subsection \<open>Decimal representations are read back\<close>

lemma digit_char_props:
  assumes "d < 10"
  shows "is_digit (digit_char d) \<and> digit_val (digit_char d) = d"
proof -
  have "d \<in> {0, 1, 2, 3, 4, 5, 6, 7, 8, 9}"
    using assms by auto
  then show ?thesis
    by (auto simp: digit_char_def is_digit_def digit_val_def)
qed

lemma is_digit_not_space: "is_digit c \<Longrightarrow> \<not> is_space c \<and> c \<noteq> CHR ''-''"
  by (auto simp: is_digit_def is_space_def)

lemma filter_digits: "list_all is_digit ds \<Longrightarrow> filter (\<lambda>c. \<not> is_space c) ds = ds"
  by (induction ds) (auto simp: is_digit_not_space)

lemma minus_L_props:
  "\<not> is_space CHR ''-''" "\<not> is_digit CHR ''L''" "\<not> is_space CHR ''L''"
  by (simp_all add: is_digit_def is_space_def)

lemma digits_of_digits: "digits_of n \<noteq> [] \<and> list_all is_digit (digits_of n)"
proof (induction n rule: digits_of.induct)
  case (1 n)
  show ?case
  proof (cases "n < 10")
    case True
    then show ?thesis
      using digit_char_props [of n] by (simp add: digits_of.simps [of n])
  next
    case False
    then have m: "n mod 10 < 10" by simp
    show ?thesis
      using False 1 digit_char_props [OF m] by (simp add: digits_of.simps [of n])
  qed
qed

lemma digits_val_snoc: "digits_val (ds @ [c]) = 10 * digits_val ds + digit_val c"
  by (simp add: digits_val_def)

lemma digits_val_digits_of: "digits_val (digits_of n) = n"
proof (induction n rule: digits_of.induct)
  case (1 n)
  show ?case
  proof (cases "n < 10")
    case True
    then show ?thesis
      using digit_char_props [of n] by (simp add: digits_of.simps [of n] digits_val_def)
  next
    case False
    then have m: "n mod 10 < 10" by simp
    show ?thesis
      using False 1 digit_char_props [OF m]
      by (simp add: digits_of.simps [of n] digits_val_snoc)
  qed
qed

lemma mpz_set_str_digits:
  assumes "ds \<noteq> []" and "list_all is_digit ds"
  shows "mpz_set_str ds = Some (int (digits_val ds))"
    and "mpz_set_str (CHR ''-'' # ds) = Some (- int (digits_val ds))"
    and "mpz_set_str (ds @ ''L'') = None"
    and "mpz_set_str (CHR ''-'' # ds @ ''L'') = None"
proof -
  obtain c r where cr: "ds = c # r"
    using assms(1) by (cases ds) auto
  have c: "c \<noteq> CHR ''-''" "is_digit c" "list_all is_digit r"
    using assms(2) is_digit_not_space [of c] by (simp_all add: cr)
  have f: "filter (\<lambda>c. \<not> is_space c) ds = ds"
    using assms(2) by (rule filter_digits)
  show "mpz_set_str ds = Some (int (digits_val ds))"
    using assms(2) c by (simp add: mpz_set_str_def f) (simp add: cr)
  show "mpz_set_str (CHR ''-'' # ds) = Some (- int (digits_val ds))"
    using assms by (simp add: mpz_set_str_def f minus_L_props)
  show "mpz_set_str (ds @ ''L'') = None"
    using c by (simp add: mpz_set_str_def f minus_L_props) (simp add: cr minus_L_props)
  show "mpz_set_str (CHR ''-'' # ds @ ''L'') = None"
    by (simp add: mpz_set_str_def f minus_L_props)
qed

lemma fmpz_set_str_repr_int: "fmpz_set_str f (repr_int n) = (n, 0)"
  using mpz_set_str_digits(1,2)
    [OF digits_of_digits [THEN conjunct1] digits_of_digits [THEN conjunct2]]
  by (simp add: fmpz_set_str_def repr_int_def digits_val_digits_of)

lemma fmpz_set_str_long: "fmpz_set_str f (repr_int n @ ''L'') = (f, - 1)"
  using mpz_set_str_digits(3,4)
    [OF digits_of_digits [THEN conjunct1] digits_of_digits [THEN conjunct2]]
  by (simp add: fmpz_set_str_def repr_int_def)

subsection \<open>Small facts\<close>

lemma size_t_ok: "0 \<le> v \<Longrightarrow> v < 2 ^ 64 \<Longrightarrow> as_size_t v = Inr (nat v)"
  by (simp add: as_size_t_def)

lemma const_poly: "fmpz_poly_set_coeff_fmpz fmpz_poly_init 0 x = (if x = 0 then [] else [x])"
  by (simp add: fmpz_poly_set_coeff_fmpz_def fmpz_poly_init_def fmpz_poly_normalise_def)

lemma coeff0_const_poly: "coeff0 (fmpz_poly_set_coeff_fmpz fmpz_poly_init 0 x) = x"
  by (simp add: const_poly coeff0_def)

subsection \<open>The operations of wrapper.pyx over the reference library\<close>

lemma Parent_init_ideal:
  "0 \<le> kappa \<Longrightarrow> kappa < 2 ^ 64 \<Longrightarrow> 0 \<le> lamb \<Longrightarrow> lamb < 2 ^ 64 \<Longrightarrow>
   0 \<le> seed \<Longrightarrow> seed < 2 ^ 64 \<Longrightarrow>
   fst (Encoded_Parent_init (ideal p) b kappa lamb seed w) = Inr (next_ref w) \<and>
   ideal_ctx p (nat kappa) (snd (Encoded_Parent_init (ideal p) b kappa lamb seed w)) (next_ref w)"
  by (simp add: Encoded_Parent_init_def as_size_t_def as_mp_limb_t_def Let_def ideal_def
      ideal_ctx_def)

lemma Parent_init_trace:
  "0 \<le> kappa \<Longrightarrow> kappa < 2 ^ 64 \<Longrightarrow> 0 \<le> lamb \<Longrightarrow> lamb < 2 ^ 64 \<Longrightarrow>
   0 \<le> seed \<Longrightarrow> seed < 2 ^ 64 \<Longrightarrow>
   trace (snd (Encoded_Parent_init lib b kappa lamb seed w)) =
     trace w @ [Call_flint_randinit_seed (nat seed) 1, Call_gghlite_init (nat lamb) (nat kappa) 1,
                Call_gghlite_params_ref, Call_gghlite_sk_get_p]"
  by (simp add: Encoded_Parent_init_def as_size_t_def as_mp_limb_t_def Let_def)

lemma init_ideal:
  "ideal_ctx p k w r \<Longrightarrow> 0 \<le> l \<Longrightarrow> l < 2 ^ 64 \<Longrightarrow>
   Encoded_Element_init (ideal p) r (IntegerMod x) l tmp w =
     (Inr \<lparr>ee_parent = r,
           ee_value = \<lparr>plain = x mod p, lvl = (replicate k 0)[nat l := 1]\<rparr>\<rparr>,
      w\<lparr>parents := (parents w)
           (r := (parents w r)\<lparr>ep_randstate := Suc (ep_randstate (parents w r))\<rparr>),
        trace := trace w @ [Call_gghlite_enc_init,
          Call_gghlite_enc_set_gghlite_clr (fmpz_poly_set_coeff_fmpz fmpz_poly_init 0 x) 1
            (nat l) 0]\<rparr>)"
  by (simp add: Encoded_Element_init_def size_t_ok Let_def ideal_def ideal_ctx_def
      coeff0_const_poly fmpz_set_str_repr_int)

lemma mul_ideal:
  "ideal_ctx p k w (ee_parent a) \<Longrightarrow>
   Encoded_Element_mul (ideal p) a b w =
     (\<lparr>ee_parent = ee_parent a,
       ee_value = \<lparr>plain = plain (ee_value a) * plain (ee_value b) mod p,
                   lvl = map2 (+) (lvl (ee_value a)) (lvl (ee_value b))\<rparr>\<rparr>,
      w\<lparr>trace := trace w @ [Call_gghlite_enc_init, Call_gghlite_enc_mul]\<rparr>)"
  by (simp add: Encoded_Element_mul_def Encoded_Element_new_c_def Let_def ideal_def
      ideal_ctx_def)

lemma sub_ideal:
  "ideal_ctx p k w (ee_parent a) \<Longrightarrow>
   Encoded_Element_sub (ideal p) a b w =
     (\<lparr>ee_parent = ee_parent a,
       ee_value = \<lparr>plain = (plain (ee_value a) - plain (ee_value b)) mod p,
                   lvl = lvl (ee_value a)\<rparr>\<rparr>,
      w\<lparr>trace := trace w @ [Call_gghlite_enc_init, Call_gghlite_enc_sub]\<rparr>)"
  by (simp add: Encoded_Element_sub_def Encoded_Element_new_c_def Let_def ideal_def
      ideal_ctx_def)

lemma nonzero_ideal:
  "ideal_ctx p k w (ee_parent a) \<Longrightarrow>
   Encoded_Element_nonzero (ideal p) a w =
     (\<not> (lvl (ee_value a) = replicate k 1 \<and> plain (ee_value a) = 0),
      w\<lparr>trace := trace w @ [Call_gghlite_enc_is_zero]\<rparr>)"
  by (simp add: Encoded_Element_nonzero_def ideal_def ideal_ctx_def)

lemma ideal_ctx_upd [simp]:
  "ideal_ctx p k (w\<lparr>trace := t\<rparr>) r = ideal_ctx p k w r"
  "ideal_ctx p k (w\<lparr>parents := (parents w)(r := (parents w r)\<lparr>ep_randstate := s\<rparr>)\<rparr>) r =
     ideal_ctx p k w r"
  "ideal_ctx p k (w\<lparr>parents := (parents w)(r := (parents w r)\<lparr>ep_randstate := s\<rparr>),
                    trace := t\<rparr>) r = ideal_ctx p k w r"
  by (simp_all add: ideal_ctx_def)

lemma upt_5: "[0..<5] = [0, 1, 2, 3, Suc 3]" "[Suc 0..<5] = [1, 2, 3, Suc 3]"
  by (simp_all add: upt_rec)

lemma replicate_5: "replicate 5 x = [x, x, x, x, x]"
  by (simp add: numeral_eq_Suc)

lemma unit_lvls:
  "(replicate 5 a)[0 := b] = [b, a, a, a, a]"
  "(replicate 5 a)[Suc 0 := b] = [a, b, a, a, a]"
  "(replicate 5 a)[2 := b] = [a, a, b, a, a]"
  "(replicate 5 a)[3 := b] = [a, a, a, b, a]"
  "(replicate 5 a)[4 := b] = [a, a, a, a, b]"
  by (simp_all add: numeral_eq_Suc)

text \<open>The run of the script over the reference library: its variables, the calls it
  makes, and the parent it leaves.\<close>

lemma test_sage_ideal:
  fixes p :: int and draw junk :: "nat \<Rightarrow> int"
  defines "P \<equiv> draw 0 * draw 1 * draw 2 * draw 3 * draw 4 mod p"
  shows "fst (test_sage (ideal p) QQ draw junk w) =
     Inr \<lparr>ts_p = p, ts_plaintext = [draw 0, draw 1, draw 2, draw 3, draw 4], ts_result = P,
          ts_value1 = \<lparr>ee_parent = next_ref w, ee_value = \<lparr>plain = P, lvl = [1, 1, 1, 1, 1]\<rparr>\<rparr>,
          ts_value2 = \<lparr>ee_parent = next_ref w, ee_value = \<lparr>plain = P, lvl = [1, 1, 1, 1, 1]\<rparr>\<rparr>,
          ts_maybe_zero =
            \<lparr>ee_parent = next_ref w, ee_value = \<lparr>plain = 0, lvl = [1, 1, 1, 1, 1]\<rparr>\<rparr>,
          ts_works = True\<rparr>"
    and "trace (snd (test_sage (ideal p) QQ draw junk w)) = trace w @
      [Call_flint_randinit_seed 0 1, Call_gghlite_init 20 5 1,
       Call_gghlite_params_ref, Call_gghlite_sk_get_p,
       Call_gghlite_enc_init,
       Call_gghlite_enc_set_gghlite_clr (fmpz_poly_set_coeff_fmpz fmpz_poly_init 0 (draw 0)) 1 0 0,
       Call_gghlite_enc_init,
       Call_gghlite_enc_set_gghlite_clr (fmpz_poly_set_coeff_fmpz fmpz_poly_init 0 (draw 1)) 1 1 0,
       Call_gghlite_enc_init,
       Call_gghlite_enc_set_gghlite_clr (fmpz_poly_set_coeff_fmpz fmpz_poly_init 0 (draw 2)) 1 2 0,
       Call_gghlite_enc_init,
       Call_gghlite_enc_set_gghlite_clr (fmpz_poly_set_coeff_fmpz fmpz_poly_init 0 (draw 3)) 1 3 0,
       Call_gghlite_enc_init,
       Call_gghlite_enc_set_gghlite_clr (fmpz_poly_set_coeff_fmpz fmpz_poly_init 0 (draw 4)) 1 4 0,
       Call_gghlite_enc_init, Call_gghlite_enc_mul, Call_gghlite_enc_init, Call_gghlite_enc_mul,
       Call_gghlite_enc_init, Call_gghlite_enc_mul, Call_gghlite_enc_init, Call_gghlite_enc_mul,
       Call_gghlite_enc_init,
       Call_gghlite_enc_set_gghlite_clr (fmpz_poly_set_coeff_fmpz fmpz_poly_init 0 (1 mod p)) 1 1 0,
       Call_gghlite_enc_init,
       Call_gghlite_enc_set_gghlite_clr (fmpz_poly_set_coeff_fmpz fmpz_poly_init 0 (1 mod p)) 1 2 0,
       Call_gghlite_enc_init,
       Call_gghlite_enc_set_gghlite_clr (fmpz_poly_set_coeff_fmpz fmpz_poly_init 0 (1 mod p)) 1 3 0,
       Call_gghlite_enc_init,
       Call_gghlite_enc_set_gghlite_clr (fmpz_poly_set_coeff_fmpz fmpz_poly_init 0 (1 mod p)) 1 4 0,
       Call_gghlite_enc_init,
       Call_gghlite_enc_set_gghlite_clr (fmpz_poly_set_coeff_fmpz fmpz_poly_init 0 P) 1 0 0,
       Call_gghlite_enc_init, Call_gghlite_enc_mul, Call_gghlite_enc_init, Call_gghlite_enc_mul,
       Call_gghlite_enc_init, Call_gghlite_enc_mul, Call_gghlite_enc_init, Call_gghlite_enc_mul,
       Call_gghlite_enc_init, Call_gghlite_enc_sub, Call_gghlite_enc_is_zero]"
    and "ideal_ctx p 5 (snd (test_sage (ideal p) QQ draw junk w)) (next_ref w)"
proof -
  define w0 where "w0 = snd (Encoded_Parent_init (ideal p) QQ 5 20 0 w)"
  define r where "r = next_ref w"
  have c0: "ideal_ctx p 5 w0 r"
    and f0: "fst (Encoded_Parent_init (ideal p) QQ 5 20 0 w) = Inr r"
    using Parent_init_ideal [of 5 20 0 p QQ w] by (simp_all add: w0_def r_def)
  have i0: "Encoded_Parent_init (ideal p) QQ 5 20 0 w = (Inr r, w0)"
    using f0 by (simp add: w0_def prod_eq_iff)
  have t0: "trace w0 = trace w @ [Call_flint_randinit_seed 0 1, Call_gghlite_init 20 5 1,
       Call_gghlite_params_ref, Call_gghlite_sk_get_p]"
    using Parent_init_trace [of 5 20 0 "ideal p" QQ w] by (simp add: w0_def)
  have P: "getP w0 r = p"
    using c0 by (simp add: getP_def ideal_ctx_def)
  have run: "test_sage (ideal p) QQ draw junk w =
     (Inr \<lparr>ts_p = p, ts_plaintext = [draw 0, draw 1, draw 2, draw 3, draw 4], ts_result = P,
          ts_value1 = \<lparr>ee_parent = r, ee_value = \<lparr>plain = P, lvl = [1, 1, 1, 1, 1]\<rparr>\<rparr>,
          ts_value2 = \<lparr>ee_parent = r, ee_value = \<lparr>plain = P, lvl = [1, 1, 1, 1, 1]\<rparr>\<rparr>,
          ts_maybe_zero = \<lparr>ee_parent = r, ee_value = \<lparr>plain = 0, lvl = [1, 1, 1, 1, 1]\<rparr>\<rparr>,
          ts_works = True\<rparr>,
      w0\<lparr>parents := (parents w0)
             (r := (parents w0 r)\<lparr>ep_randstate :=
                Suc (Suc (Suc (Suc (Suc (Suc (Suc (Suc (Suc (Suc
                  (ep_randstate (parents w0 r)))))))))))\<rparr>),
         trace := trace w0 @
      [Call_gghlite_enc_init,
       Call_gghlite_enc_set_gghlite_clr (fmpz_poly_set_coeff_fmpz fmpz_poly_init 0 (draw 0)) 1 0 0,
       Call_gghlite_enc_init,
       Call_gghlite_enc_set_gghlite_clr (fmpz_poly_set_coeff_fmpz fmpz_poly_init 0 (draw 1)) 1 1 0,
       Call_gghlite_enc_init,
       Call_gghlite_enc_set_gghlite_clr (fmpz_poly_set_coeff_fmpz fmpz_poly_init 0 (draw 2)) 1 2 0,
       Call_gghlite_enc_init,
       Call_gghlite_enc_set_gghlite_clr (fmpz_poly_set_coeff_fmpz fmpz_poly_init 0 (draw 3)) 1 3 0,
       Call_gghlite_enc_init,
       Call_gghlite_enc_set_gghlite_clr (fmpz_poly_set_coeff_fmpz fmpz_poly_init 0 (draw 4)) 1 4 0,
       Call_gghlite_enc_init, Call_gghlite_enc_mul, Call_gghlite_enc_init, Call_gghlite_enc_mul,
       Call_gghlite_enc_init, Call_gghlite_enc_mul, Call_gghlite_enc_init, Call_gghlite_enc_mul,
       Call_gghlite_enc_init,
       Call_gghlite_enc_set_gghlite_clr (fmpz_poly_set_coeff_fmpz fmpz_poly_init 0 (1 mod p)) 1 1 0,
       Call_gghlite_enc_init,
       Call_gghlite_enc_set_gghlite_clr (fmpz_poly_set_coeff_fmpz fmpz_poly_init 0 (1 mod p)) 1 2 0,
       Call_gghlite_enc_init,
       Call_gghlite_enc_set_gghlite_clr (fmpz_poly_set_coeff_fmpz fmpz_poly_init 0 (1 mod p)) 1 3 0,
       Call_gghlite_enc_init,
       Call_gghlite_enc_set_gghlite_clr (fmpz_poly_set_coeff_fmpz fmpz_poly_init 0 (1 mod p)) 1 4 0,
       Call_gghlite_enc_init,
       Call_gghlite_enc_set_gghlite_clr (fmpz_poly_set_coeff_fmpz fmpz_poly_init 0 P) 1 0 0,
       Call_gghlite_enc_init, Call_gghlite_enc_mul, Call_gghlite_enc_init, Call_gghlite_enc_mul,
       Call_gghlite_enc_init, Call_gghlite_enc_mul, Call_gghlite_enc_init, Call_gghlite_enc_mul,
       Call_gghlite_enc_init, Call_gghlite_enc_sub, Call_gghlite_enc_is_zero]\<rparr>)"
    unfolding test_sage_def Let_def P_def
    apply (simp only: i0 of_nat_numeral)
    using c0
    apply (simp add: P bind_py_def upt_5 reduce_mul_Plain_def reduce_mul_def
        init_ideal [where k = 5] mul_ideal [where k = 5] sub_ideal [where k = 5]
        nonzero_ideal [where k = 5] replicate_5 unit_lvls mod_simps ideal_ctx_def)
    done
  show "fst (test_sage (ideal p) QQ draw junk w) =
     Inr \<lparr>ts_p = p, ts_plaintext = [draw 0, draw 1, draw 2, draw 3, draw 4], ts_result = P,
          ts_value1 = \<lparr>ee_parent = next_ref w, ee_value = \<lparr>plain = P, lvl = [1, 1, 1, 1, 1]\<rparr>\<rparr>,
          ts_value2 = \<lparr>ee_parent = next_ref w, ee_value = \<lparr>plain = P, lvl = [1, 1, 1, 1, 1]\<rparr>\<rparr>,
          ts_maybe_zero =
            \<lparr>ee_parent = next_ref w, ee_value = \<lparr>plain = 0, lvl = [1, 1, 1, 1, 1]\<rparr>\<rparr>,
          ts_works = True\<rparr>"
    by (simp add: run r_def)
  show "trace (snd (test_sage (ideal p) QQ draw junk w)) = trace w @
      [Call_flint_randinit_seed 0 1, Call_gghlite_init 20 5 1,
       Call_gghlite_params_ref, Call_gghlite_sk_get_p,
       Call_gghlite_enc_init,
       Call_gghlite_enc_set_gghlite_clr (fmpz_poly_set_coeff_fmpz fmpz_poly_init 0 (draw 0)) 1 0 0,
       Call_gghlite_enc_init,
       Call_gghlite_enc_set_gghlite_clr (fmpz_poly_set_coeff_fmpz fmpz_poly_init 0 (draw 1)) 1 1 0,
       Call_gghlite_enc_init,
       Call_gghlite_enc_set_gghlite_clr (fmpz_poly_set_coeff_fmpz fmpz_poly_init 0 (draw 2)) 1 2 0,
       Call_gghlite_enc_init,
       Call_gghlite_enc_set_gghlite_clr (fmpz_poly_set_coeff_fmpz fmpz_poly_init 0 (draw 3)) 1 3 0,
       Call_gghlite_enc_init,
       Call_gghlite_enc_set_gghlite_clr (fmpz_poly_set_coeff_fmpz fmpz_poly_init 0 (draw 4)) 1 4 0,
       Call_gghlite_enc_init, Call_gghlite_enc_mul, Call_gghlite_enc_init, Call_gghlite_enc_mul,
       Call_gghlite_enc_init, Call_gghlite_enc_mul, Call_gghlite_enc_init, Call_gghlite_enc_mul,
       Call_gghlite_enc_init,
       Call_gghlite_enc_set_gghlite_clr (fmpz_poly_set_coeff_fmpz fmpz_poly_init 0 (1 mod p)) 1 1 0,
       Call_gghlite_enc_init,
       Call_gghlite_enc_set_gghlite_clr (fmpz_poly_set_coeff_fmpz fmpz_poly_init 0 (1 mod p)) 1 2 0,
       Call_gghlite_enc_init,
       Call_gghlite_enc_set_gghlite_clr (fmpz_poly_set_coeff_fmpz fmpz_poly_init 0 (1 mod p)) 1 3 0,
       Call_gghlite_enc_init,
       Call_gghlite_enc_set_gghlite_clr (fmpz_poly_set_coeff_fmpz fmpz_poly_init 0 (1 mod p)) 1 4 0,
       Call_gghlite_enc_init,
       Call_gghlite_enc_set_gghlite_clr (fmpz_poly_set_coeff_fmpz fmpz_poly_init 0 P) 1 0 0,
       Call_gghlite_enc_init, Call_gghlite_enc_mul, Call_gghlite_enc_init, Call_gghlite_enc_mul,
       Call_gghlite_enc_init, Call_gghlite_enc_mul, Call_gghlite_enc_init, Call_gghlite_enc_mul,
       Call_gghlite_enc_init, Call_gghlite_enc_sub, Call_gghlite_enc_is_zero]"
    by (simp add: run t0)
  show "ideal_ctx p 5 (snd (test_sage (ideal p) QQ draw junk w)) (next_ref w)"
    using c0 by (simp add: run r_def ideal_ctx_def)
qed

section \<open>The claims\<close>

subsection \<open>C1: the end-to-end scenario\<close>

text \<open>
  Claim C1. With \<open>kappa = 5\<close> and any five plaintexts \<open>x0..x4\<close>, the product of their
  encodings in the groups 0 to 4 and the product of an encoding of \<open>x0*x1*x2*x3*x4 mod p\<close>
  in group 0 with encodings of 1 in the groups 1 to 4 differ by an encoding of zero, and
  the script's \<open>not bool(value1 - value2)\<close> is true. The wrapper is run over the reference
  library, for every modulus \<open>p\<close>, every five draws, whatever the uninitialised locals
  hold and from every starting world. The script ends with \<open>value1\<close> and \<open>value2\<close> both
  encoding the product of the draws modulo \<open>p\<close> at the top level and \<open>maybe_zero\<close>
  encoding zero there; it makes exactly the listed native calls, the last of them the
  zero-test on the difference; and the truth value of \<open>value1\<close> itself is true exactly
  when that product is not zero modulo \<open>p\<close>, so the test does tell the two apart.
\<close>

theorem test_sage_works:
  "fst (test_sage (ideal p) QQ draw junk w) =
     Inr \<lparr>ts_p = p, ts_plaintext = [draw 0, draw 1, draw 2, draw 3, draw 4],
          ts_result = draw 0 * draw 1 * draw 2 * draw 3 * draw 4 mod p,
          ts_value1 = \<lparr>ee_parent = next_ref w,
            ee_value = \<lparr>plain = draw 0 * draw 1 * draw 2 * draw 3 * draw 4 mod p,
                        lvl = [1, 1, 1, 1, 1]\<rparr>\<rparr>,
          ts_value2 = \<lparr>ee_parent = next_ref w,
            ee_value = \<lparr>plain = draw 0 * draw 1 * draw 2 * draw 3 * draw 4 mod p,
                        lvl = [1, 1, 1, 1, 1]\<rparr>\<rparr>,
          ts_maybe_zero =
            \<lparr>ee_parent = next_ref w, ee_value = \<lparr>plain = 0, lvl = [1, 1, 1, 1, 1]\<rparr>\<rparr>,
          ts_works = True\<rparr> \<and>
   trace (snd (test_sage (ideal p) QQ draw junk w)) = trace w @
     [Call_flint_randinit_seed 0 1, Call_gghlite_init 20 5 1,
      Call_gghlite_params_ref, Call_gghlite_sk_get_p,
      Call_gghlite_enc_init,
      Call_gghlite_enc_set_gghlite_clr (fmpz_poly_set_coeff_fmpz fmpz_poly_init 0 (draw 0)) 1 0 0,
      Call_gghlite_enc_init,
      Call_gghlite_enc_set_gghlite_clr (fmpz_poly_set_coeff_fmpz fmpz_poly_init 0 (draw 1)) 1 1 0,
      Call_gghlite_enc_init,
      Call_gghlite_enc_set_gghlite_clr (fmpz_poly_set_coeff_fmpz fmpz_poly_init 0 (draw 2)) 1 2 0,
      Call_gghlite_enc_init,
      Call_gghlite_enc_set_gghlite_clr (fmpz_poly_set_coeff_fmpz fmpz_poly_init 0 (draw 3)) 1 3 0,
      Call_gghlite_enc_init,
      Call_gghlite_enc_set_gghlite_clr (fmpz_poly_set_coeff_fmpz fmpz_poly_init 0 (draw 4)) 1 4 0,
      Call_gghlite_enc_init, Call_gghlite_enc_mul, Call_gghlite_enc_init, Call_gghlite_enc_mul,
      Call_gghlite_enc_init, Call_gghlite_enc_mul, Call_gghlite_enc_init, Call_gghlite_enc_mul,
      Call_gghlite_enc_init,
      Call_gghlite_enc_set_gghlite_clr (fmpz_poly_set_coeff_fmpz fmpz_poly_init 0 (1 mod p)) 1 1 0,
      Call_gghlite_enc_init,
      Call_gghlite_enc_set_gghlite_clr (fmpz_poly_set_coeff_fmpz fmpz_poly_init 0 (1 mod p)) 1 2 0,
      Call_gghlite_enc_init,
      Call_gghlite_enc_set_gghlite_clr (fmpz_poly_set_coeff_fmpz fmpz_poly_init 0 (1 mod p)) 1 3 0,
      Call_gghlite_enc_init,
      Call_gghlite_enc_set_gghlite_clr (fmpz_poly_set_coeff_fmpz fmpz_poly_init 0 (1 mod p)) 1 4 0,
      Call_gghlite_enc_init,
      Call_gghlite_enc_set_gghlite_clr
        (fmpz_poly_set_coeff_fmpz fmpz_poly_init 0
           (draw 0 * draw 1 * draw 2 * draw 3 * draw 4 mod p)) 1 0 0,
      Call_gghlite_enc_init, Call_gghlite_enc_mul, Call_gghlite_enc_init, Call_gghlite_enc_mul,
      Call_gghlite_enc_init, Call_gghlite_enc_mul, Call_gghlite_enc_init, Call_gghlite_enc_mul,
      Call_gghlite_enc_init, Call_gghlite_enc_sub, Call_gghlite_enc_is_zero] \<and>
   fst (Encoded_Element_nonzero (ideal p)
          \<lparr>ee_parent = next_ref w,
           ee_value = \<lparr>plain = draw 0 * draw 1 * draw 2 * draw 3 * draw 4 mod p,
                       lvl = [1, 1, 1, 1, 1]\<rparr>\<rparr>
          (snd (test_sage (ideal p) QQ draw junk w))) =
     (draw 0 * draw 1 * draw 2 * draw 3 * draw 4 mod p \<noteq> 0)"
proof (intro conjI)
  show "fst (test_sage (ideal p) QQ draw junk w) =
     Inr \<lparr>ts_p = p, ts_plaintext = [draw 0, draw 1, draw 2, draw 3, draw 4],
          ts_result = draw 0 * draw 1 * draw 2 * draw 3 * draw 4 mod p,
          ts_value1 = \<lparr>ee_parent = next_ref w,
            ee_value = \<lparr>plain = draw 0 * draw 1 * draw 2 * draw 3 * draw 4 mod p,
                        lvl = [1, 1, 1, 1, 1]\<rparr>\<rparr>,
          ts_value2 = \<lparr>ee_parent = next_ref w,
            ee_value = \<lparr>plain = draw 0 * draw 1 * draw 2 * draw 3 * draw 4 mod p,
                        lvl = [1, 1, 1, 1, 1]\<rparr>\<rparr>,
          ts_maybe_zero =
            \<lparr>ee_parent = next_ref w, ee_value = \<lparr>plain = 0, lvl = [1, 1, 1, 1, 1]\<rparr>\<rparr>,
          ts_works = True\<rparr>"
    by (rule test_sage_ideal(1))
  show "trace (snd (test_sage (ideal p) QQ draw junk w)) = trace w @
     [Call_flint_randinit_seed 0 1, Call_gghlite_init 20 5 1,
      Call_gghlite_params_ref, Call_gghlite_sk_get_p,
      Call_gghlite_enc_init,
      Call_gghlite_enc_set_gghlite_clr (fmpz_poly_set_coeff_fmpz fmpz_poly_init 0 (draw 0)) 1 0 0,
      Call_gghlite_enc_init,
      Call_gghlite_enc_set_gghlite_clr (fmpz_poly_set_coeff_fmpz fmpz_poly_init 0 (draw 1)) 1 1 0,
      Call_gghlite_enc_init,
      Call_gghlite_enc_set_gghlite_clr (fmpz_poly_set_coeff_fmpz fmpz_poly_init 0 (draw 2)) 1 2 0,
      Call_gghlite_enc_init,
      Call_gghlite_enc_set_gghlite_clr (fmpz_poly_set_coeff_fmpz fmpz_poly_init 0 (draw 3)) 1 3 0,
      Call_gghlite_enc_init,
      Call_gghlite_enc_set_gghlite_clr (fmpz_poly_set_coeff_fmpz fmpz_poly_init 0 (draw 4)) 1 4 0,
      Call_gghlite_enc_init, Call_gghlite_enc_mul, Call_gghlite_enc_init, Call_gghlite_enc_mul,
      Call_gghlite_enc_init, Call_gghlite_enc_mul, Call_gghlite_enc_init, Call_gghlite_enc_mul,
      Call_gghlite_enc_init,
      Call_gghlite_enc_set_gghlite_clr (fmpz_poly_set_coeff_fmpz fmpz_poly_init 0 (1 mod p)) 1 1 0,
      Call_gghlite_enc_init,
      Call_gghlite_enc_set_gghlite_clr (fmpz_poly_set_coeff_fmpz fmpz_poly_init 0 (1 mod p)) 1 2 0,
      Call_gghlite_enc_init,
      Call_gghlite_enc_set_gghlite_clr (fmpz_poly_set_coeff_fmpz fmpz_poly_init 0 (1 mod p)) 1 3 0,
      Call_gghlite_enc_init,
      Call_gghlite_enc_set_gghlite_clr (fmpz_poly_set_coeff_fmpz fmpz_poly_init 0 (1 mod p)) 1 4 0,
      Call_gghlite_enc_init,
      Call_gghlite_enc_set_gghlite_clr
        (fmpz_poly_set_coeff_fmpz fmpz_poly_init 0
           (draw 0 * draw 1 * draw 2 * draw 3 * draw 4 mod p)) 1 0 0,
      Call_gghlite_enc_init, Call_gghlite_enc_mul, Call_gghlite_enc_init, Call_gghlite_enc_mul,
      Call_gghlite_enc_init, Call_gghlite_enc_mul, Call_gghlite_enc_init, Call_gghlite_enc_mul,
      Call_gghlite_enc_init, Call_gghlite_enc_sub, Call_gghlite_enc_is_zero]"
    by (rule test_sage_ideal(2))
  show "fst (Encoded_Element_nonzero (ideal p)
          \<lparr>ee_parent = next_ref w,
           ee_value = \<lparr>plain = draw 0 * draw 1 * draw 2 * draw 3 * draw 4 mod p,
                       lvl = [1, 1, 1, 1, 1]\<rparr>\<rparr>
          (snd (test_sage (ideal p) QQ draw junk w))) =
     (draw 0 * draw 1 * draw 2 * draw 3 * draw 4 mod p \<noteq> 0)"
    using test_sage_ideal(3) [of p QQ draw junk w]
    by (simp add: nonzero_ideal [where k = 5] replicate_5)
qed

theorem test_sage_works_witness:
  "map_sum id ts_works (fst (test_sage (ideal 7) () (\<lambda>i. int i + 2) (\<lambda>i. 99) world0)) = Inr True \<and>
   map_sum id ts_value1 (fst (test_sage (ideal 7) () (\<lambda>i. int i + 2) (\<lambda>i. 99) world0)) =
     Inr \<lparr>ee_parent = 0, ee_value = \<lparr>plain = 6, lvl = [1, 1, 1, 1, 1]\<rparr>\<rparr> \<and>
   fst (Encoded_Element_nonzero (ideal 7)
          \<lparr>ee_parent = 0, ee_value = \<lparr>plain = 6, lvl = [1, 1, 1, 1, 1]\<rparr>\<rparr>
          (snd (test_sage (ideal 7) () (\<lambda>i. int i + 2) (\<lambda>i. 99) world0)))"
  using test_sage_works [of 7 "()" "\<lambda>i. int i + 2" "\<lambda>i. 99" world0]
  by (simp add: world0_def)

subsection \<open>C2: multiplication and the degree bound\<close>

text \<open>
  Claim C2 as stated fails. In a context of degree \<open>kappa = 1\<close>, two encodings at level 1
  of group 0 have a combined level of 2 on that one slot, and \<open>_mul_\<close> returns their
  product (here over the reference library, which shows the level of the result).
\<close>

theorem mul_beyond_kappa_counterexample:
  "ep_kappa (parents world_kappa1 0) = 1 \<and>
   fst (Encoded_Element_init (ideal 7) 0 (PyInt 2) 0 0 world_kappa1) =
     Inr \<lparr>ee_parent = 0, ee_value = \<lparr>plain = 2, lvl = [1]\<rparr>\<rparr> \<and>
   fst (Encoded_Element_init (ideal 7) 0 (PyInt 3) 0 0 world_kappa1) =
     Inr \<lparr>ee_parent = 0, ee_value = \<lparr>plain = 3, lvl = [1]\<rparr>\<rparr> \<and>
   fst (Encoded_Element_mul (ideal 7)
          \<lparr>ee_parent = 0, ee_value = \<lparr>plain = 2, lvl = [1]\<rparr>\<rparr>
          \<lparr>ee_parent = 0, ee_value = \<lparr>plain = 3, lvl = [1]\<rparr>\<rparr> world_kappa1) =
     \<lparr>ee_parent = 0, ee_value = \<lparr>plain = 6, lvl = [2]\<rparr>\<rparr>"
  by code_simp

text \<open>
  Claim C2, amended. Multiplication makes no check of levels against \<open>kappa\<close> and never
  fails with a level error: for every library and every pair of encodings, \<open>_mul_\<close>
  initialises a fresh value, calls the native multiplication once on the two operands'
  values under the parameters of the left operand's parent, and returns that product
  as an element of the left operand's parent. In the alternative wrapper the result is
  the native product as well, unless the allocation of the result fails.
\<close>

theorem mul_makes_no_level_check:
  "fst (Encoded_Element_mul lib a b w) =
     \<lparr>ee_parent = ee_parent a,
      ee_value = gghlite_enc_mul lib (ep_params (parents w (ee_parent a)))
                   (ee_value a) (ee_value b)\<rparr> \<and>
   trace (snd (Encoded_Element_mul lib a b w)) =
     trace w @ [Call_gghlite_enc_init, Call_gghlite_enc_mul] \<and>
   fst (Encoded_Element_mul_alt lib' a' b' w') =
     (if free_blocks w' = 0 then Inl MemoryError
      else Inr \<lparr>ee_parent = ee_parent a',
                ee_value = gghlite_mul lib' (ap_publickey (parents w' (ee_parent a')))
                             (ee_value a') (ee_value b')\<rparr>)"
  by (simp add: Encoded_Element_mul_def Encoded_Element_new_c_def Encoded_Element_mul_alt_def
      Encoded_Element_init_alt_def Let_def)

subsection \<open>C3: addition and subtraction\<close>

text \<open>
  Claim C3 as stated fails. Two parents are made (references 0 and 1); \<open>a\<close> is an
  encoding of 3 in group 0 under the first, \<open>b\<close> an encoding of 4 in group 1 under the
  second. \<open>_add_\<close> and \<open>_sub_\<close> on \<open>a\<close> and \<open>b\<close> raise nothing: each calls the native
  operation and returns an element of the first parent.
\<close>

theorem add_sub_mismatch_counterexample:
  "fst (Encoded_Parent_init (ideal 7) () 5 20 0 world0) = Inr 0 \<and>
   fst (Encoded_Parent_init (ideal 7) () 5 20 0 world_kappa5) = Inr 1 \<and>
   fst (Encoded_Element_init (ideal 7) 0 (PyInt 3) 0 0 world_two) =
     Inr \<lparr>ee_parent = 0, ee_value = \<lparr>plain = 3, lvl = [1, 0, 0, 0, 0]\<rparr>\<rparr> \<and>
   fst (Encoded_Element_init (ideal 7) 1 (PyInt 4) 1 0 world_two) =
     Inr \<lparr>ee_parent = 1, ee_value = \<lparr>plain = 4, lvl = [0, 1, 0, 0, 0]\<rparr>\<rparr> \<and>
   fst (Encoded_Element_add (ideal 7)
          \<lparr>ee_parent = 0, ee_value = \<lparr>plain = 3, lvl = [1, 0, 0, 0, 0]\<rparr>\<rparr>
          \<lparr>ee_parent = 1, ee_value = \<lparr>plain = 4, lvl = [0, 1, 0, 0, 0]\<rparr>\<rparr>
          world_two) =
     \<lparr>ee_parent = 0, ee_value = \<lparr>plain = 0, lvl = [1, 0, 0, 0, 0]\<rparr>\<rparr> \<and>
   fst (Encoded_Element_sub (ideal 7)
          \<lparr>ee_parent = 0, ee_value = \<lparr>plain = 3, lvl = [1, 0, 0, 0, 0]\<rparr>\<rparr>
          \<lparr>ee_parent = 1, ee_value = \<lparr>plain = 4, lvl = [0, 1, 0, 0, 0]\<rparr>\<rparr>
          world_two) =
     \<lparr>ee_parent = 0, ee_value = \<lparr>plain = 6, lvl = [1, 0, 0, 0, 0]\<rparr>\<rparr> \<and>
   trace (snd (Encoded_Element_add (ideal 7)
          \<lparr>ee_parent = 0, ee_value = \<lparr>plain = 3, lvl = [1, 0, 0, 0, 0]\<rparr>\<rparr>
          \<lparr>ee_parent = 1, ee_value = \<lparr>plain = 4, lvl = [0, 1, 0, 0, 0]\<rparr>\<rparr>
          world_two)) =
     trace world_two @ [Call_gghlite_enc_init, Call_gghlite_enc_add]"
  by code_simp

text \<open>
  Claim C3, amended. Addition and subtraction compare neither the parents nor the levels
  of their operands and never fail with a context or level error: for every library and
  every pair of encodings, \<open>_add_\<close> and \<open>_sub_\<close> initialise a fresh value, call the native
  addition or subtraction once on the two operands' values under the parameters of the
  left operand's parent, and return the result as an element of the left operand's
  parent. The alternative wrapper has \<open>_add_\<close> only, which returns the native sum unless
  the allocation of the result fails.
\<close>

theorem add_sub_make_no_check:
  "fst (Encoded_Element_add lib a b w) =
     \<lparr>ee_parent = ee_parent a,
      ee_value = gghlite_enc_add lib (ep_params (parents w (ee_parent a)))
                   (ee_value a) (ee_value b)\<rparr> \<and>
   trace (snd (Encoded_Element_add lib a b w)) =
     trace w @ [Call_gghlite_enc_init, Call_gghlite_enc_add] \<and>
   fst (Encoded_Element_sub lib a b w) =
     \<lparr>ee_parent = ee_parent a,
      ee_value = gghlite_enc_sub lib (ep_params (parents w (ee_parent a)))
                   (ee_value a) (ee_value b)\<rparr> \<and>
   trace (snd (Encoded_Element_sub lib a b w)) =
     trace w @ [Call_gghlite_enc_init, Call_gghlite_enc_sub] \<and>
   fst (Encoded_Element_add_alt lib' a' b' w') =
     (if free_blocks w' = 0 then Inl MemoryError
      else Inr \<lparr>ee_parent = ee_parent a',
                ee_value = gghlite_add lib' (ap_publickey (parents w' (ee_parent a')))
                             (ee_value a') (ee_value b')\<rparr>)"
  by (simp add: Encoded_Element_add_def Encoded_Element_sub_def Encoded_Element_new_c_def
      Encoded_Element_add_alt_def Encoded_Element_init_alt_def Let_def)

subsection \<open>C4: the level given to the constructor\<close>

text \<open>
  Claim C4 (encoding at a level outside the range of the context fails), evaluated on
  the code: in a context made with \<open>kappa = 5\<close>, the constructor called with plaintext 1
  and level 6 raises nothing, whatever its uninitialised local holds. It passes 6 as the
  group index to the native encoder and returns the encoding the library gives back.
\<close>

theorem encode_level_beyond_kappa_accepted:
  "ep_kappa (parents (snd (Encoded_Parent_init lib base 5 20 0 w)) (next_ref w)) = 5 \<and>
   fst (Encoded_Element_init lib (next_ref w) (PyInt 1) 6 tmp
          (snd (Encoded_Parent_init lib base 5 20 0 w))) =
     Inr \<lparr>ee_parent = next_ref w,
          ee_value = fst (gghlite_enc_set_gghlite_clr lib
             (fst (gghlite_init lib 20 5 1 Encoded_Parent_flags (flint_randinit_seed lib 0 1)))
             [1] 1 6 0
             (snd (gghlite_init lib 20 5 1 Encoded_Parent_flags (flint_randinit_seed lib 0 1))))\<rparr>"
  by (simp add: Encoded_Parent_init_def as_size_t_def as_mp_limb_t_def Let_def
      Encoded_Element_init_def const_poly fmpz_set_str_repr_int)

subsection \<open>C5: what the constructor of a parent checks\<close>

text \<open>
  Claim C5 as stated fails. With \<open>kappa = 0\<close> and \<open>lamb = 0\<close> the constructor raises
  nothing: a parent is made that holds both values.
\<close>

theorem parent_init_zero_counterexample:
  "fst (Encoded_Parent_init (ideal 7) () 0 0 0 world0) = Inr 0 \<and>
   ep_kappa (parents (snd (Encoded_Parent_init (ideal 7) () 0 0 0 world0)) 0) = 0 \<and>
   ep_lamb (parents (snd (Encoded_Parent_init (ideal 7) () 0 0 0 world0)) 0) = 0"
  by code_simp

text \<open>
  Claim C5, amended. The constructor of a parent compares neither \<open>kappa\<close> with 1 nor
  \<open>lamb\<close> with 0. It fails exactly when \<open>seed\<close>, \<open>kappa\<close> or \<open>lamb\<close> does not convert to an
  unsigned machine integer (it is negative or at least \<open>2^64\<close>), with \<open>OverflowError\<close> and
  before any native call; every other \<open>kappa\<close> and \<open>lamb\<close>, zero included, is passed
  unchanged to the native parameter generation and a parent is returned. The
  alternative wrapper does the same once its two allocations have succeeded.
\<close>

theorem parent_init_checks_representation_only:
  "fst (Encoded_Parent_init lib base kappa lamb seed w) =
     (if fits_unsigned seed \<and> fits_unsigned kappa \<and> fits_unsigned lamb
      then Inr (next_ref w) else Inl OverflowError) \<and>
   trace (snd (Encoded_Parent_init lib base kappa lamb seed w)) =
     (if fits_unsigned seed \<and> fits_unsigned kappa \<and> fits_unsigned lamb
      then trace w @ [Call_flint_randinit_seed (nat seed) 1,
                      Call_gghlite_init (nat lamb) (nat kappa) 1,
                      Call_gghlite_params_ref, Call_gghlite_sk_get_p]
      else trace w) \<and>
   fst (Encoded_Parent_init_alt lib' base' kappa lamb seed w') =
     (if free_blocks w' < 2 then Inl MemoryError
      else if fits_unsigned seed \<and> fits_unsigned kappa \<and> fits_unsigned lamb
      then Inr (next_ref w') else Inl OverflowError)"
  by (simp add: Encoded_Parent_init_def Encoded_Parent_init_alt_def as_size_t_def
      as_mp_limb_t_def Let_def fits_unsigned_def not_le not_less)

theorem parent_init_checks_representation_only_witness:
  "fst (Encoded_Parent_init (ideal 7) () 0 0 0 world0) = Inr 0 \<and>
   fst (Encoded_Parent_init (ideal 7) () (- 1) 20 0 world0) = Inl OverflowError \<and>
   fst (Encoded_Parent_init (ideal 7) () 5 20 0 world0) = Inr 0"
  using parent_init_checks_representation_only
      [of "ideal 7" "()" 0 0 0 world0 "ideal_alt 7" "()" "world0_alt 8"]
    parent_init_checks_representation_only
      [of "ideal 7" "()" "- 1" 20 0 world0 "ideal_alt 7" "()" "world0_alt 8"]
    parent_init_checks_representation_only
      [of "ideal 7" "()" 5 20 0 world0 "ideal_alt 7" "()" "world0_alt 8"]
  by (simp add: fits_unsigned_def world0_def)

subsection \<open>C6: the secret instance\<close>

text \<open>
  Claim C6 (the secret key material is cleared before the constructor of a parent
  returns), evaluated on the code. In \<open>wrapper.pyx\<close> the construction with \<open>kappa = 5\<close>
  succeeds, makes exactly four native calls, none of them \<open>gghlite_sk_clear\<close>, and the
  parent it returns holds the secret instance that \<open>gghlite_init\<close> produced. The
  alternative wrapper keeps only the public key and the randomness state and ends its
  construction with \<open>gghlite_clear(instance, 0)\<close>.
\<close>

theorem parent_init_keeps_secret_instance:
  "fst (Encoded_Parent_init lib base 5 20 0 w) = Inr (next_ref w) \<and>
   ep_instance (parents (snd (Encoded_Parent_init lib base 5 20 0 w)) (next_ref w)) =
     fst (gghlite_init lib 20 5 1 Encoded_Parent_flags (flint_randinit_seed lib 0 1)) \<and>
   trace (snd (Encoded_Parent_init lib base 5 20 0 w)) =
     trace w @ [Call_flint_randinit_seed 0 1, Call_gghlite_init 20 5 1,
                Call_gghlite_params_ref, Call_gghlite_sk_get_p] \<and>
   trace (snd (Encoded_Parent_init_alt lib' base' 5 20 0 w')) =
     (if free_blocks w' < 2 then trace w'
      else trace w' @ [Call_flint_randinit_seed 0 1, Call_gghlite_init 20 5 1,
                       Call_gghlite_pk_ref, Call_gghlite_clear 0])"
  by (simp add: Encoded_Parent_init_def Encoded_Parent_init_alt_def as_size_t_def
      as_mp_limb_t_def Let_def)

subsection \<open>C7: re-randomisation at construction\<close>




subsection \<open>C8: determinism under a fixed seed\<close>

text \<open>
  Claim C8 (two parents made with the same configuration give bit-identical encodings
  for the same calls), evaluated on the code. A parent is made with \<open>kappa = 5\<close>,
  \<open>lamb = 20\<close>, \<open>seed = 0\<close> and the constructor is called with the Python 2 long \<open>5L\<close> at
  level 0. \<open>fmpz_set_str\<close> fails on the representation \<open>5L\<close>, its status is not looked
  at, and \<open>tmp_fmpz\<close> was never initialised: the polynomial handed to the native encoder
  is the content \<open>tmp\<close> of that local, not 5, and \<open>tmp\<close> is no function of the
  configuration and the calls.
\<close>

theorem encode_unparsed_plaintext_passes_stale_memory:
  "py_repr (PyLong 5) = ''5L'' \<and>
   fmpz_set_str tmp ''5L'' = (tmp, - 1) \<and>
   fst (Encoded_Element_init lib (next_ref w) (PyLong 5) 0 tmp
          (snd (Encoded_Parent_init lib base 5 20 0 w))) =
     Inr \<lparr>ee_parent = next_ref w,
          ee_value = fst (gghlite_enc_set_gghlite_clr lib
             (fst (gghlite_init lib 20 5 1 Encoded_Parent_flags (flint_randinit_seed lib 0 1)))
             (fmpz_poly_set_coeff_fmpz fmpz_poly_init 0 tmp) 1 0 0
             (snd (gghlite_init lib 20 5 1 Encoded_Parent_flags (flint_randinit_seed lib 0 1))))\<rparr> \<and>
   trace (snd (Encoded_Element_init lib (next_ref w) (PyLong 5) 0 tmp
                 (snd (Encoded_Parent_init lib base 5 20 0 w)))) =
     trace w @ [Call_flint_randinit_seed 0 1, Call_gghlite_init 20 5 1,
                Call_gghlite_params_ref, Call_gghlite_sk_get_p, Call_gghlite_enc_init,
                Call_gghlite_enc_set_gghlite_clr
                  (fmpz_poly_set_coeff_fmpz fmpz_poly_init 0 tmp) 1 0 0]"
proof -
  have r: "py_repr (PyLong 5) = ''5L''"
    by code_simp
  have s: "fmpz_set_str tmp (py_repr (PyLong 5)) = (tmp, - 1)"
    by (simp add: fmpz_set_str_long)
  show ?thesis
    using s
    by (simp add: r Encoded_Parent_init_def as_size_t_def as_mp_limb_t_def Let_def
        Encoded_Element_init_def del: py_repr.simps)
qed

subsection \<open>C9: the constructor of the alternative wrapper\<close>

text \<open>
  Claim C9. In the alternative wrapper the constructor of an element takes a parent
  and an argument \<open>x\<close> and no level, and does not use \<open>x\<close>: whatever \<open>x\<close> is, the outcome
  is the same, and (when the value can be allocated) the new element holds what
  \<open>gghlite_sample\<close> returns at level 0 from the parent's randomness state.
\<close>

theorem alt_constructor_ignores_plaintext:
  "Encoded_Element_init_alt lib parent x w = Encoded_Element_init_alt lib parent y w \<and>
   fst (Encoded_Element_init_alt lib parent x w) =
     (if free_blocks w = 0 then Inl MemoryError
      else Inr \<lparr>ee_parent = parent,
                ee_value = fst (gghlite_sample lib (ap_publickey (parents w parent)) 0
                                  (ap_randstate (parents w parent)))\<rparr>) \<and>
   ap_randstate (parents (snd (Encoded_Element_init_alt lib parent x w)) parent) =
     (if free_blocks w = 0 then ap_randstate (parents w parent)
      else snd (gghlite_sample lib (ap_publickey (parents w parent)) 0
                  (ap_randstate (parents w parent)))) \<and>
   trace (snd (Encoded_Element_init_alt lib parent x w)) =
     (if free_blocks w = 0 then trace w
      else trace w @ [Call_gghlite_enc_init, Call_gghlite_sample 0])"
  by (simp add: Encoded_Element_init_alt_def Let_def)

theorem alt_constructor_ignores_plaintext_witness:
  "fst (Encoded_Element_init_alt (ideal_alt 7) 0 5 world_kappa5_alt) =
     Inr \<lparr>ee_parent = 0, ee_value = \<lparr>plain_alt = 1, level_alt = 0\<rparr>\<rparr> \<and>
   fst (Encoded_Element_init_alt (ideal_alt 7) 0 6 world_kappa5_alt) =
     Inr \<lparr>ee_parent = 0, ee_value = \<lparr>plain_alt = 1, level_alt = 0\<rparr>\<rparr>"
proof -
  have a: "free_blocks world_kappa5_alt \<noteq> 0"
    by code_simp
  have b: "fst (gghlite_sample (ideal_alt 7) (ap_publickey (parents world_kappa5_alt 0)) 0
                 (ap_randstate (parents world_kappa5_alt 0))) =
           \<lparr>plain_alt = 1, level_alt = 0\<rparr>"
    by code_simp
  show ?thesis
    using alt_constructor_ignores_plaintext [of "ideal_alt 7" 0 5 world_kappa5_alt 6]
      alt_constructor_ignores_plaintext [of "ideal_alt 7" 0 6 world_kappa5_alt 5] a b
    by simp
qed

subsection \<open>C10: truth value and zero-test\<close>

text \<open>
  Claim C10. The truth value of an element is the negation of the native zero-test:
  \<open>__nonzero__\<close> returns false exactly when the zero-test of the library, under the
  parameters of the element's parent, reports that the element's value encodes zero.
  This holds in both wrappers, and \<open>__nonzero__\<close> makes that one native call.
\<close>

theorem nonzero_negates_zero_test:
  "(\<not> fst (Encoded_Element_nonzero lib e w)) =
     gghlite_enc_is_zero lib (ep_params (parents w (ee_parent e))) (ee_value e) \<and>
   trace (snd (Encoded_Element_nonzero lib e w)) = trace w @ [Call_gghlite_enc_is_zero] \<and>
   (\<not> fst (Encoded_Element_nonzero_alt lib' e' w')) =
     gghlite_is_zero lib' (ap_publickey (parents w' (ee_parent e'))) (ee_value e') \<and>
   trace (snd (Encoded_Element_nonzero_alt lib' e' w')) = trace w' @ [Call_gghlite_is_zero]"
  by (simp add: Encoded_Element_nonzero_def Encoded_Element_nonzero_alt_def)

theorem nonzero_negates_zero_test_witness:
  "\<not> fst (Encoded_Element_nonzero (ideal 7)
       \<lparr>ee_parent = 0, ee_value = \<lparr>plain = 0, lvl = [1, 1, 1, 1, 1]\<rparr>\<rparr>
       world_kappa5) \<and>
   fst (Encoded_Element_nonzero_alt (ideal_alt 7)
       \<lparr>ee_parent = 0, ee_value = \<lparr>plain_alt = 3, level_alt = 5\<rparr>\<rparr> world_kappa5_alt)"
proof -
  have z: "gghlite_enc_is_zero (ideal 7) (ep_params (parents world_kappa5 0))
             \<lparr>plain = 0, lvl = [1, 1, 1, 1, 1]\<rparr>"
    by code_simp
  have n: "\<not> gghlite_is_zero (ideal_alt 7) (ap_publickey (parents world_kappa5_alt 0))
             \<lparr>plain_alt = 3, level_alt = 5\<rparr>"
    by code_simp
  show ?thesis
    using nonzero_negates_zero_test
        [of "ideal 7" "\<lparr>ee_parent = 0, ee_value = \<lparr>plain = 0, lvl = [1, 1, 1, 1, 1]\<rparr>\<rparr>"
          world_kappa5 "ideal_alt 7"
          "\<lparr>ee_parent = 0, ee_value = \<lparr>plain_alt = 3, level_alt = 5\<rparr>\<rparr>" world_kappa5_alt]
      z n
    by simp
qed

end
